theory Spec2Isabelle
  imports Main
begin

section \<open>RF profile reconciliation: validator and applier of update\_rfprofiles.py\<close>

text \<open>
  The development embeds the two functions of \<^verbatim>\<open>update_rfprofiles.py\<close> that carry
  decision logic: \<^verbatim>\<open>validateAssignments\<close> (lines 142-220) and
  \<^verbatim>\<open>upload_profiles\<close> (lines 223-322). Console output, the progress bar and the
  \<^verbatim>\<open>Show errors?\<close> prompt only display data and do not influence any value computed
  below; they are left out. The dashboard client is an external collaborator: it is a
  parameter of the model, a state machine over an arbitrary state type.
\<close>

subsection \<open>Python strings\<close>

text \<open>
  Strings are Isabelle strings over ASCII text. \<^verbatim>\<open>str.lower()\<close> maps the letters
  A-Z to a-z, \<^verbatim>\<open>str.strip()\<close> removes leading and trailing white space (the ASCII
  characters for which \<^verbatim>\<open>str.isspace\<close> holds), \<^verbatim>\<open>str.split(",")\<close> cuts at every
  comma and returns one more piece than there are commas, and \<^verbatim>\<open>sub in s\<close> is
  substring containment.
\<close>

definition py_lower_char :: "char \<Rightarrow> char" where
  "py_lower_char c =
     (case map_of (zip ''ABCDEFGHIJKLMNOPQRSTUVWXYZ'' ''abcdefghijklmnopqrstuvwxyz'') c of
        Some l \<Rightarrow> l
      | None \<Rightarrow> c)"

definition py_lower :: "string \<Rightarrow> string" where
  "py_lower s = map py_lower_char s"

definition py_isspace :: "char \<Rightarrow> bool" where
  "py_isspace c =
     (c \<in> set [CHR 0x09, CHR 0x0A, CHR 0x0B, CHR 0x0C, CHR 0x0D,
                CHR 0x1C, CHR 0x1D, CHR 0x1E, CHR 0x1F, CHR 0x20])"

definition py_strip :: "string \<Rightarrow> string" where
  "py_strip s = rev (dropWhile py_isspace (rev (dropWhile py_isspace s)))"

fun py_split :: "char \<Rightarrow> string \<Rightarrow> string list" where
  "py_split sep [] = [[]]"
| "py_split sep (c # cs) =
     (if c = sep then [] # py_split sep cs
      else (case py_split sep cs of [] \<Rightarrow> [[c]] | w # ws \<Rightarrow> (c # w) # ws))"

fun py_startswith :: "string \<Rightarrow> string \<Rightarrow> bool" where
  "py_startswith s [] = True"
| "py_startswith [] (p # ps) = False"
| "py_startswith (c # cs) (p # ps) = (c = p \<and> py_startswith cs ps)"

fun py_in :: "string \<Rightarrow> string \<Rightarrow> bool" where
  "py_in sub [] = py_startswith [] sub"
| "py_in sub (c # cs) = (py_startswith (c # cs) sub \<or> py_in sub cs)"

text \<open>
  The source compares the list \<^verbatim>\<open>aps\<close> with the string \<^verbatim>\<open>""\<close>. Python's
  \<^verbatim>\<open>==\<close> between a list and a string is defined and yields \<^verbatim>\<open>False\<close>; the two
  kinds of value are kept apart by a datatype, whose equality does the same.
\<close>

datatype pyval = PyStr string | PyList "string list"

datatype py_error = IndexError | KeyError | TypeError | SystemExit int

subsection \<open>Insertion-ordered dictionaries\<close>

text \<open>
  A Python \<^verbatim>\<open>dict\<close> iterates in insertion order, and storing under a key that is
  already present replaces the value and keeps the key's position. The change-set is
  iterated by \<^verbatim>\<open>upload_profiles\<close>, so it is an association list with that store.
\<close>

fun dict_set :: "'k \<Rightarrow> 'v \<Rightarrow> ('k \<times> 'v) list \<Rightarrow> ('k \<times> 'v) list" where
  "dict_set k v [] = [(k, v)]"
| "dict_set k v ((k', v') # kvs) =
     (if k' = k then (k, v) # kvs else (k', v') # dict_set k v kvs)"

subsection \<open>Data model\<close>

text \<open>
  One row of the assignment sheet as \<^verbatim>\<open>DictReader\<close> yields it for a sheet whose
  rows have all three columns: a string under each of the three header names.
\<close>

record assignment_row =
  Network_Name :: string
  RF_Profiles :: string
  APs :: string

text \<open>
  The baseline built by \<^verbatim>\<open>getRFProfiles\<close>: for each lower-cased network name the
  network id and the existing profiles, name to remote id.
\<close>

record baseline_net =
  bl_id :: string
  bl_rf :: "string \<rightharpoonup> string"

datatype oper = Add | Update

text \<open>
  A profile entry of the change-set: the keys \<^verbatim>\<open>aps\<close>, \<^verbatim>\<open>oper\<close> and \<^verbatim>\<open>id\<close>,
  the last one present only for an update or after a successful creation.
\<close>

record profile_change =
  aps :: "string list"
  oper :: oper
  rfid :: "string option"

record net_change =
  nc_id :: string
  nc_rf :: "(string \<times> profile_change) list"

type_synonym changeset = "(string \<times> net_change) list"

subsection \<open>validateAssignments\<close>

text \<open>The local variables of the validation loop.\<close>

record vstate =
  good :: nat
  bad_network :: "assignment_row list"
  bad_profiles :: "assignment_row list"
  bad_aps :: "assignment_row list"
  updates :: changeset

definition init_vstate :: vstate where
  "init_vstate = \<lparr>good = 0, bad_network = [], bad_profiles = [], bad_aps = [], updates = []\<rparr>"

text \<open>
  Lines 165-169: every profile name of the row that is not a key of the templates
  appends the row to \<^verbatim>\<open>bad_profiles\<close> and raises the flag.
\<close>

fun check_profiles ::
  "(string \<rightharpoonup> 'doc) \<Rightarrow> assignment_row \<Rightarrow> string list \<Rightarrow> assignment_row list \<times> bool
     \<Rightarrow> assignment_row list \<times> bool" where
  "check_profiles new entry [] acc = acc"
| "check_profiles new entry (profile # ps) (bp, bad_profile) =
     (if new profile = None
      then check_profiles new entry ps (bp @ [entry], True)
      else check_profiles new entry ps (bp, bad_profile))"

text \<open>
  Line 174: \<^verbatim>\<open>aps != "" and aps[0].lower() != "none"\<close>. The second operand is read
  only when the first holds; \<^verbatim>\<open>aps[0]\<close> raises IndexError on an empty list.
\<close>

definition ap_conflict :: "string list \<Rightarrow> py_error + bool" where
  "ap_conflict aps_list =
     (if PyList aps_list \<noteq> PyStr ''''
      then (case aps_list of
              [] \<Rightarrow> Inl IndexError
            | a # _ \<Rightarrow> Inr (py_lower a \<noteq> ''none''))
      else Inr False)"

text \<open>
  Lines 184-193: every profile of the row gets a fresh entry with the row's AP list,
  tagged \<^verbatim>\<open>update\<close> with the baseline id when the network already has a profile of
  that name, \<^verbatim>\<open>add\<close> otherwise.
\<close>

definition classify_profile :: "(string \<rightharpoonup> string) \<Rightarrow> string list \<Rightarrow> string \<Rightarrow> profile_change" where
  "classify_profile cur_rf aps_list profile =
     (case cur_rf profile of
        Some i \<Rightarrow> \<lparr>aps = aps_list, oper = Update, rfid = Some i\<rparr>
      | None \<Rightarrow> \<lparr>aps = aps_list, oper = Add, rfid = None\<rparr>)"

fun classify ::
  "(string \<rightharpoonup> string) \<Rightarrow> string list \<Rightarrow> string list \<Rightarrow> (string \<times> profile_change) list
     \<Rightarrow> (string \<times> profile_change) list" where
  "classify cur_rf aps_list [] rf = rf"
| "classify cur_rf aps_list (profile # ps) rf =
     classify cur_rf aps_list ps (dict_set profile (classify_profile cur_rf aps_list profile) rf)"

text \<open>
  Lines 179-194: the entry of the target network is set to a new dictionary holding the
  network id and the profiles of this row, and the row is counted.
\<close>

definition accept_row ::
  "baseline_net \<Rightarrow> string \<Rightarrow> string list \<Rightarrow> string list \<Rightarrow> vstate \<Rightarrow> vstate" where
  "accept_row cur target_network rf_profiles aps_list st =
     st\<lparr>updates :=
          dict_set target_network
            \<lparr>nc_id = bl_id cur, nc_rf = classify (bl_rf cur) aps_list rf_profiles []\<rparr>
            (updates st),
        good := good st + 1\<rparr>"

text \<open>
  Lines 157-159: the two comma-joined columns are split and every piece stripped; the
  network name is lower-cased.
\<close>

definition row_profiles :: "assignment_row \<Rightarrow> string list" where
  "row_profiles entry = map py_strip (py_split CHR '','' (RF_Profiles entry))"

definition row_aps :: "assignment_row \<Rightarrow> string list" where
  "row_aps entry = map py_strip (py_split CHR '','' (APs entry))"

definition row_network :: "assignment_row \<Rightarrow> string" where
  "row_network entry = py_lower (Network_Name entry)"

text \<open>The body of the loop over the rows (lines 157-194).\<close>

definition validate_row ::
  "(string \<rightharpoonup> baseline_net) \<Rightarrow> (string \<rightharpoonup> 'doc) \<Rightarrow> vstate \<Rightarrow> assignment_row
     \<Rightarrow> py_error + vstate" where
  "validate_row current new st entry =
     (let rf_profiles = row_profiles entry;
          aps_list = row_aps entry;
          target_network = row_network entry
      in case current target_network of
           None \<Rightarrow> Inr (st\<lparr>bad_network := bad_network st @ [entry]\<rparr>)
         | Some cur \<Rightarrow>
             (case check_profiles new entry rf_profiles (bad_profiles st, False) of
                (bp, bad_profile) \<Rightarrow>
                  if bad_profile then Inr (st\<lparr>bad_profiles := bp\<rparr>)
                  else if length rf_profiles > 1
                  then (case ap_conflict aps_list of
                          Inl e \<Rightarrow> Inl e
                        | Inr conflict \<Rightarrow>
                            if conflict
                            then Inr (st\<lparr>bad_profiles := bp, bad_aps := bad_aps st @ [entry]\<rparr>)
                            else Inr (accept_row cur target_network rf_profiles aps_list
                                        (st\<lparr>bad_profiles := bp\<rparr>)))
                  else Inr (accept_row cur target_network rf_profiles aps_list
                              (st\<lparr>bad_profiles := bp\<rparr>))))"

fun validate_rows ::
  "(string \<rightharpoonup> baseline_net) \<Rightarrow> (string \<rightharpoonup> 'doc) \<Rightarrow> assignment_row list \<Rightarrow> vstate
     \<Rightarrow> py_error + vstate" where
  "validate_rows current new [] st = Inr st"
| "validate_rows current new (entry # es) st =
     (case validate_row current new st entry of
        Inl e \<Rightarrow> Inl e
      | Inr st' \<Rightarrow> validate_rows current new es st')"

text \<open>
  Lines 196-220: when every row passed the change-set is returned; otherwise the run
  exits with status 1 if no row passed, and returns the change-set if some did.
\<close>

definition validateAssignments ::
  "(string \<rightharpoonup> baseline_net) \<Rightarrow> (string \<rightharpoonup> 'doc) \<Rightarrow> assignment_row list
     \<Rightarrow> py_error + changeset" where
  "validateAssignments current new assignments =
     (case validate_rows current new assignments init_vstate of
        Inl e \<Rightarrow> Inl e
      | Inr st \<Rightarrow>
          if good st = length assignments then Inr (updates st)
          else if good st = 0 then Inl (SystemExit 1)
          else Inr (updates st))"

text \<open>
  A row is accepted when the loop body, run on it alone, counts it. The counter does not
  depend on the rows seen before, so this is the row's fate at any position.
\<close>

definition row_accepted ::
  "(string \<rightharpoonup> baseline_net) \<Rightarrow> (string \<rightharpoonup> 'doc) \<Rightarrow> assignment_row \<Rightarrow> bool" where
  "row_accepted current new entry =
     (case validate_row current new init_vstate entry of
        Inl e \<Rightarrow> False
      | Inr st \<Rightarrow> good st = 1)"

text \<open>The profile names of a row that are not among the templates, with repetitions.\<close>

definition missing_profiles :: "(string \<rightharpoonup> 'doc) \<Rightarrow> assignment_row \<Rightarrow> string list" where
  "missing_profiles new entry = filter (\<lambda>p. new p = None) (row_profiles entry)"

subsection \<open>upload\_profiles\<close>

text \<open>
  The dashboard client. Each operation takes the state of the remote system and returns
  the new state with either the \<^verbatim>\<open>message\<close> of the \<^verbatim>\<open>APIError\<close> it raised
  (\<open>Inl\<close>) or its response (\<open>Inr\<close>). A device carries the two keys the source reads.

  The client library sets the message of an \<^verbatim>\<open>APIError\<close> to what it decoded from the
  response: a dictionary, which has a list of messages under the key \<^verbatim>\<open>errors\<close> or
  lacks that key, or another value (a string, or \<^verbatim>\<open>None\<close>) when the response held no
  JSON. The handlers of the source read \<^verbatim>\<open>e.message["errors"][0]\<close>, which raises
  TypeError on a value that is no dictionary, KeyError on a dictionary without
  \<^verbatim>\<open>errors\<close>, and IndexError on an empty list.
\<close>

datatype api_message = JsonErrors "string list" | JsonWithoutErrors | NotJson

fun first_error :: "api_message \<Rightarrow> py_error + string" where
  "first_error (JsonErrors []) = Inl IndexError"
| "first_error (JsonErrors (msg # rest)) = Inr msg"
| "first_error JsonWithoutErrors = Inl KeyError"
| "first_error NotJson = Inl TypeError"

record device =
  serial :: string
  model :: string

record ('doc, 's) dashboard =
  createNetworkWirelessRfProfile :: "string \<Rightarrow> 'doc \<Rightarrow> 's \<Rightarrow> (api_message + string) \<times> 's"
  updateNetworkWirelessRfProfile ::
    "string \<Rightarrow> string \<Rightarrow> 'doc \<Rightarrow> 's \<Rightarrow> (api_message + unit) \<times> 's"
  getNetworkDevices :: "string \<Rightarrow> 's \<Rightarrow> (api_message + device list) \<times> 's"
  updateDeviceWirelessRadioSettings :: "string \<Rightarrow> string \<Rightarrow> 's \<Rightarrow> (api_message + unit) \<times> 's"

text \<open>The calls made to the dashboard are recorded, with their arguments.\<close>

datatype 'doc call =
    CreateNetworkWirelessRfProfile string 'doc
  | UpdateNetworkWirelessRfProfile string string 'doc
  | GetNetworkDevices string
  | UpdateDeviceWirelessRadioSettings string string

text \<open>An entry of the list \<^verbatim>\<open>errors\<close>.\<close>

record failure =
  network :: string
  profile :: string
  error :: string

text \<open>
  The state of a run: the remote system, the list \<^verbatim>\<open>errors\<close>, the change-set (which
  the source mutates in place when it stores the id of a created profile), and the log
  of dashboard calls, each tagged with the network and profile it was made for.
\<close>

record ('doc, 's) ustate =
  remote :: 's
  errors :: "failure list"
  changes :: changeset
  calls :: "(string \<times> string \<times> 'doc call) list"

text \<open>Line 249: \<^verbatim>\<open>rf[profile]["id"] = response["id"]\<close>.\<close>

definition store_id :: "string \<Rightarrow> string \<Rightarrow> string \<Rightarrow> changeset \<Rightarrow> changeset" where
  "store_id netname pname new_id chs =
     map (\<lambda>(n, nc).
            if n = netname
            then (n, nc\<lparr>nc_rf :=
                         map (\<lambda>(p, ch). if p = pname then (p, ch\<lparr>rfid := Some new_id\<rparr>) else (p, ch))
                             (nc_rf nc)\<rparr>)
            else (n, nc))
         chs"

text \<open>
  Lines 244-255, the body of the first \<^verbatim>\<open>try\<close>: one creation or update call. The
  result is the outcome of the call (the message of the \<^verbatim>\<open>APIError\<close>, or the id of
  the profile afterwards), the new remote state and the call made. Reading
  \<^verbatim>\<open>rf[profile]["id"]\<close> of an update entry without id raises KeyError, which the
  handler does not catch.
\<close>

definition mutate_profile ::
  "('doc, 's) dashboard \<Rightarrow> string \<Rightarrow> 'doc \<Rightarrow> profile_change \<Rightarrow> 's
     \<Rightarrow> py_error + ((api_message + string) \<times> 's \<times> 'doc call)" where
  "mutate_profile d netid profiledata ch s =
     (case oper ch of
        Add \<Rightarrow>
          (case createNetworkWirelessRfProfile d netid profiledata s of
             (r, s') \<Rightarrow> Inr (r, s', CreateNetworkWirelessRfProfile netid profiledata))
      | Update \<Rightarrow>
          (case rfid ch of
             None \<Rightarrow> Inl KeyError
           | Some i \<Rightarrow>
               (case updateNetworkWirelessRfProfile d netid i profiledata s of
                  (Inl m, s') \<Rightarrow> Inr (Inl m, s', UpdateNetworkWirelessRfProfile netid i profiledata)
                | (Inr u, s') \<Rightarrow> Inr (Inr i, s', UpdateNetworkWirelessRfProfile netid i profiledata))))"

text \<open>
  Lines 289-301: one radio-settings call per serial, in list order. The first
  \<^verbatim>\<open>APIError\<close> ends the loop: its handler (lines 293-301) appends a record with the
  first message of the error, and raises itself when the error has none.
\<close>

fun assign_aps ::
  "('doc, 's) dashboard \<Rightarrow> string \<Rightarrow> string \<Rightarrow> string \<Rightarrow> string list \<Rightarrow> ('doc, 's) ustate
     \<Rightarrow> py_error + ('doc, 's) ustate" where
  "assign_aps d netname pname rid [] st = Inr st"
| "assign_aps d netname pname rid (ap # rest) st =
     (case updateDeviceWirelessRadioSettings d ap rid (remote st) of
        (Inl m, s') \<Rightarrow>
          (case first_error m of
             Inl e \<Rightarrow> Inl e
           | Inr msg \<Rightarrow>
               Inr (st\<lparr>remote := s',
                       calls := calls st @
                         [(netname, pname, UpdateDeviceWirelessRadioSettings ap rid)],
                       errors := errors st @
                         [\<lparr>network = netname, profile = pname, error = msg\<rparr>]\<rparr>))
      | (Inr u, s') \<Rightarrow>
          assign_aps d netname pname rid rest
            (st\<lparr>remote := s',
                calls := calls st @ [(netname, pname, UpdateDeviceWirelessRadioSettings ap rid)]\<rparr>))"

text \<open>
  Lines 268-302: the AP assignment of one profile whose creation or update succeeded.
  \<^verbatim>\<open>aps == "" or aps[0].lower() == "none"\<close> reads \<^verbatim>\<open>aps[0]\<close> only when the first
  operand is false. A failed listing of the devices goes to the same handler as a failed
  radio-settings call.
\<close>

definition assign_profile ::
  "('doc, 's) dashboard \<Rightarrow> string \<Rightarrow> string \<Rightarrow> string \<Rightarrow> string list \<Rightarrow> string
     \<Rightarrow> ('doc, 's) ustate \<Rightarrow> py_error + ('doc, 's) ustate" where
  "assign_profile d netname netid pname aps_list rid st =
     (if PyList aps_list = PyStr '''' then Inr st
      else (case aps_list of
              [] \<Rightarrow> Inl IndexError
            | a # _ \<Rightarrow>
                if py_lower a = ''none'' then Inr st
                else if py_lower a = ''all''
                then (case getNetworkDevices d netid (remote st) of
                        (Inl m, s') \<Rightarrow>
                          (case first_error m of
                             Inl e \<Rightarrow> Inl e
                           | Inr msg \<Rightarrow>
                               Inr (st\<lparr>remote := s',
                                       calls := calls st @
                                         [(netname, pname, GetNetworkDevices netid)],
                                       errors := errors st @
                                         [\<lparr>network = netname, profile = pname, error = msg\<rparr>]\<rparr>))
                      | (Inr response, s') \<Rightarrow>
                          assign_aps d netname pname rid
                            (map serial (filter (\<lambda>dev. py_in ''MR'' (model dev)) response))
                            (st\<lparr>remote := s',
                                calls := calls st @ [(netname, pname, GetNetworkDevices netid)]\<rparr>))
                else assign_aps d netname pname rid aps_list st))"

text \<open>
  Lines 241-302, the body of the loop over the profiles of a network. The entry
  \<open>ch\<close> is the value of \<^verbatim>\<open>rf[profile]\<close> when the iteration starts; the keys of a
  dictionary are distinct, so no earlier iteration has changed it. The handler of lines
  256-264 builds the record, reading the first message of the error, before it appends
  it: when the error has no message the handler raises and nothing is appended.
\<close>

definition process_profile ::
  "('doc, 's) dashboard \<Rightarrow> (string \<rightharpoonup> 'doc) \<Rightarrow> string \<Rightarrow> string \<Rightarrow> string \<Rightarrow> profile_change
     \<Rightarrow> ('doc, 's) ustate \<Rightarrow> py_error + ('doc, 's) ustate" where
  "process_profile d profiles netname netid pname ch st =
     (case profiles pname of
        None \<Rightarrow> Inl KeyError
      | Some profiledata \<Rightarrow>
          (case mutate_profile d netid profiledata ch (remote st) of
             Inl e \<Rightarrow> Inl e
           | Inr (Inl m, s', c) \<Rightarrow>
               (case first_error m of
                  Inl e \<Rightarrow> Inl e
                | Inr msg \<Rightarrow>
                    Inr (st\<lparr>remote := s',
                            calls := calls st @ [(netname, pname, c)],
                            errors := errors st @
                              [\<lparr>network = netname, profile = pname, error = msg\<rparr>]\<rparr>))
           | Inr (Inr rid, s', c) \<Rightarrow>
               assign_profile d netname netid pname (aps ch) rid
                 (st\<lparr>remote := s',
                     calls := calls st @ [(netname, pname, c)],
                     changes := (case oper ch of
                                   Add \<Rightarrow> store_id netname pname rid (changes st)
                                 | Update \<Rightarrow> changes st)\<rparr>)))"

text \<open>Lines 240-302: the loop over the profiles of one network.\<close>

fun upload_rf ::
  "('doc, 's) dashboard \<Rightarrow> (string \<rightharpoonup> 'doc) \<Rightarrow> string \<Rightarrow> string
     \<Rightarrow> (string \<times> profile_change) list \<Rightarrow> ('doc, 's) ustate \<Rightarrow> py_error + ('doc, 's) ustate" where
  "upload_rf d profiles netname netid [] st = Inr st"
| "upload_rf d profiles netname netid ((pname, ch) # rest) st =
     (case process_profile d profiles netname netid pname ch st of
        Inl e \<Rightarrow> Inl e
      | Inr st' \<Rightarrow> upload_rf d profiles netname netid rest st')"

text \<open>Lines 234-304: the loop over the networks of the change-set.\<close>

fun upload_networks ::
  "('doc, 's) dashboard \<Rightarrow> (string \<rightharpoonup> 'doc) \<Rightarrow> changeset \<Rightarrow> ('doc, 's) ustate
     \<Rightarrow> py_error + ('doc, 's) ustate" where
  "upload_networks d profiles [] st = Inr st"
| "upload_networks d profiles ((netname, nc) # rest) st =
     (case upload_rf d profiles netname (nc_id nc) (nc_rf nc) st of
        Inl e \<Rightarrow> Inl e
      | Inr st' \<Rightarrow> upload_networks d profiles rest st')"

definition upload_profiles ::
  "changeset \<Rightarrow> (string \<rightharpoonup> 'doc) \<Rightarrow> ('doc, 's) dashboard \<Rightarrow> 's \<Rightarrow> py_error + ('doc, 's) ustate" where
  "upload_profiles chs profiles d s =
     upload_networks d profiles chs \<lparr>remote = s, errors = [], changes = chs, calls = []\<rparr>"

text \<open>
  The per-device calls in a log of dashboard calls: the calls of
  \<^verbatim>\<open>updateDeviceWirelessRadioSettings\<close>.
\<close>

fun is_radio_call :: "'doc call \<Rightarrow> bool" where
  "is_radio_call (UpdateDeviceWirelessRadioSettings ap i) = True"
| "is_radio_call c = False"

definition radio_calls ::
  "(string \<times> string \<times> 'doc call) list \<Rightarrow> (string \<times> string \<times> 'doc call) list" where
  "radio_calls log = filter (\<lambda>(n, p, c). is_radio_call c) log"




subsection \<open>Example inputs\<close>

text \<open>
  The baseline, templates and rows of the end-to-end scenario, and three dashboards: one
  on which every call succeeds, one on which the creation of the profile
  \<^verbatim>\<open>5ghz-boost\<close> is refused with a message, and one on which it fails with a response
  that holds no JSON.
\<close>

definition ex_current :: "string \<rightharpoonup> baseline_net" where
  "ex_current = [''branch-a'' \<mapsto> \<lparr>bl_id = ''N1'', bl_rf = [''legacy'' \<mapsto> ''R1'']\<rparr>]"

definition ex_new :: "string \<rightharpoonup> string" where
  "ex_new = [''legacy'' \<mapsto> ''legacy.yaml'', ''5ghz-boost'' \<mapsto> ''5ghz-boost.yaml'']"

definition ex_row_legacy :: assignment_row where
  "ex_row_legacy = \<lparr>Network_Name = ''Branch-A'', RF_Profiles = ''legacy'', APs = ''none''\<rparr>"

definition ex_row_boost :: assignment_row where
  "ex_row_boost =
     \<lparr>Network_Name = ''Branch-A'', RF_Profiles = ''5ghz-boost'', APs = ''AP100, AP101''\<rparr>"

definition ex_row_two_profiles :: assignment_row where
  "ex_row_two_profiles =
     \<lparr>Network_Name = ''Branch-A'', RF_Profiles = ''legacy, 5ghz-boost'', APs = ''''\<rparr>"

definition ex_row_no_aps :: assignment_row where
  "ex_row_no_aps = \<lparr>Network_Name = ''Branch-A'', RF_Profiles = ''legacy'', APs = ''''\<rparr>"

definition ex_row_other_network :: assignment_row where
  "ex_row_other_network =
     \<lparr>Network_Name = ''Branch-B'', RF_Profiles = ''legacy'', APs = ''none''\<rparr>"

definition ex_row_unknown_profiles :: assignment_row where
  "ex_row_unknown_profiles =
     \<lparr>Network_Name = ''Branch-A'', RF_Profiles = ''2ghz, legacy, 6ghz'', APs = ''none''\<rparr>"

definition ex_dashboard :: "device list \<Rightarrow> (string, nat) dashboard" where
  "ex_dashboard devs =
     \<lparr>createNetworkWirelessRfProfile = (\<lambda>netid doc s. (Inr ''R9'', Suc s)),
      updateNetworkWirelessRfProfile = (\<lambda>netid i doc s. (Inr (), Suc s)),
      getNetworkDevices = (\<lambda>netid s. (Inr devs, Suc s)),
      updateDeviceWirelessRadioSettings = (\<lambda>ap i s. (Inr (), Suc s))\<rparr>"

definition ex_dashboard_refusing :: "(string, nat) dashboard" where
  "ex_dashboard_refusing =
     \<lparr>createNetworkWirelessRfProfile =
        (\<lambda>netid doc s. if doc = ''5ghz-boost.yaml''
                        then (Inl (JsonErrors [''Name is taken'']), Suc s)
                        else (Inr ''R9'', Suc s)),
      updateNetworkWirelessRfProfile = (\<lambda>netid i doc s. (Inr (), Suc s)),
      getNetworkDevices = (\<lambda>netid s. (Inr [], Suc s)),
      updateDeviceWirelessRadioSettings = (\<lambda>ap i s. (Inr (), Suc s))\<rparr>"

definition ex_dashboard_unreadable :: "(string, nat) dashboard" where
  "ex_dashboard_unreadable =
     \<lparr>createNetworkWirelessRfProfile =
        (\<lambda>netid doc s. if doc = ''5ghz-boost.yaml''
                        then (Inl NotJson, Suc s)
                        else (Inr ''R9'', Suc s)),
      updateNetworkWirelessRfProfile = (\<lambda>netid i doc s. (Inr (), Suc s)),
      getNetworkDevices = (\<lambda>netid s. (Inr [], Suc s)),
      updateDeviceWirelessRadioSettings = (\<lambda>ap i s. (Inr (), Suc s))\<rparr>"

definition ex_other_network :: "(string \<times> net_change) list" where
  "ex_other_network =
     [(''branch-b'',
       \<lparr>nc_id = ''N2'',
        nc_rf = [(''legacy'', \<lparr>aps = [''AP200''], oper = Add, rfid = None\<rparr>)]\<rparr>)]"

definition ex_row_both :: assignment_row where
  "ex_row_both =
     \<lparr>Network_Name = ''BRANCH-A'', RF_Profiles = ''legacy , 5ghz-boost'', APs = ''None''\<rparr>"

definition ex_rf_all :: profile_change where
  "ex_rf_all = \<lparr>aps = [''ALL''], oper = Update, rfid = Some ''R1''\<rparr>"



definition ex_ustate :: "(string, nat) ustate" where
  "ex_ustate = \<lparr>remote = 0, errors = [], changes = [], calls = []\<rparr>"

definition ex_devices :: "device list" where
  "ex_devices =
     [\<lparr>serial = ''Q2-A'', model = ''MR44''\<rparr>,
      \<lparr>serial = ''Q2-B'', model = ''CMR1''\<rparr>,
      \<lparr>serial = ''Q2-C'', model = ''MX64''\<rparr>]"

section \<open>Properties of the validator\<close>

subsection \<open>Auxiliary facts\<close>

lemma py_split_nonempty: "py_split sep s \<noteq> []"
  by (induction s) (auto split: list.splits)

lemma row_aps_Cons: "\<exists>a as. row_aps e = a # as"
  by (cases "row_aps e") (simp_all add: row_aps_def py_split_nonempty)

lemma ap_conflict_Cons: "ap_conflict (a # as) = Inr (py_lower a \<noteq> ''none'')"
  by (simp add: ap_conflict_def)

lemma ap_conflict_row: "ap_conflict (row_aps e) = Inr (py_lower (hd (row_aps e)) \<noteq> ''none'')"
  using row_aps_Cons [of e] by (auto simp: ap_conflict_Cons)

lemma check_profiles_eq:
  "check_profiles new e ps (bp, flag) =
     (bp @ replicate (length (filter (\<lambda>p. new p = None) ps)) e,
      flag \<or> filter (\<lambda>p. new p = None) ps \<noteq> [])"
  by (induction ps arbitrary: bp flag) (simp_all add: replicate_append_same)

lemma validate_row_eq:
  "validate_row current new st e =
     (case current (row_network e) of
        None \<Rightarrow> Inr (st\<lparr>bad_network := bad_network st @ [e]\<rparr>)
      | Some cur \<Rightarrow>
          if missing_profiles new e \<noteq> []
          then Inr (st\<lparr>bad_profiles := bad_profiles st @ replicate (length (missing_profiles new e)) e\<rparr>)
          else if 1 < length (row_profiles e) \<and> py_lower (hd (row_aps e)) \<noteq> ''none''
          then Inr (st\<lparr>bad_aps := bad_aps st @ [e]\<rparr>)
          else Inr (accept_row cur (row_network e) (row_profiles e) (row_aps e) st))"
  by (simp add: validate_row_def Let_def check_profiles_eq ap_conflict_row missing_profiles_def
           split: option.splits)

lemma validate_row_total: "\<exists>st'. validate_row current new st e = Inr st'"
  by (simp add: validate_row_eq split: option.splits)

lemma row_accepted_iff:
  "row_accepted current new e \<longleftrightarrow>
     (current (row_network e) \<noteq> None \<and> missing_profiles new e = [] \<and>
      \<not> (1 < length (row_profiles e) \<and> py_lower (hd (row_aps e)) \<noteq> ''none''))"
  by (auto simp: row_accepted_def validate_row_eq init_vstate_def accept_row_def
           split: option.splits)

lemma validate_rows_total: "\<exists>st'. validate_rows current new rows st = Inr st'"
proof (induction rows arbitrary: st)
  case Nil
  show ?case by simp
next
  case (Cons e es)
  obtain st1 where "validate_row current new st e = Inr st1"
    using validate_row_total by blast
  then show ?case using Cons.IH [of st1] by simp
qed

lemma validate_rows_append:
  "validate_rows current new xs st = Inr st1 \<Longrightarrow>
   validate_rows current new (xs @ ys) st = validate_rows current new ys st1"
  by (induction xs arbitrary: st) (auto split: sum.splits)

text \<open>What one row does to each report and to the counter.\<close>

lemma step_bad_network:
  "validate_row current new st e = Inr st1 \<Longrightarrow>
   bad_network st1 = bad_network st @ (if current (row_network e) = None then [e] else [])"
  by (auto simp: validate_row_eq accept_row_def split: option.splits if_splits)

lemma step_bad_profiles:
  "validate_row current new st e = Inr st1 \<Longrightarrow>
   bad_profiles st1 = bad_profiles st @
     (if current (row_network e) = None then [] else replicate (length (missing_profiles new e)) e)"
  by (auto simp: validate_row_eq accept_row_def split: option.splits if_splits)

lemma step_bad_aps:
  "validate_row current new st e = Inr st1 \<Longrightarrow>
   bad_aps st1 = bad_aps st @
     (if current (row_network e) \<noteq> None \<and> missing_profiles new e = [] \<and>
         1 < length (row_profiles e) \<and> py_lower (hd (row_aps e)) \<noteq> ''none'' then [e] else [])"
  by (auto simp: validate_row_eq accept_row_def split: option.splits if_splits)

lemma step_good:
  "validate_row current new st e = Inr st1 \<Longrightarrow>
   good st1 = good st + (if row_accepted current new e then 1 else 0)"
  by (auto simp: row_accepted_iff validate_row_eq accept_row_def split: option.splits if_splits)

lemma step_updates:
  "validate_row current new st e = Inr st1 \<Longrightarrow>
   updates st1 =
     (if row_accepted current new e
      then dict_set (row_network e)
             \<lparr>nc_id = bl_id (the (current (row_network e))),
              nc_rf = classify (bl_rf (the (current (row_network e)))) (row_aps e) (row_profiles e) []\<rparr>
             (updates st)
      else updates st)"
  by (auto simp: row_accepted_iff validate_row_eq accept_row_def split: option.splits if_splits)

lemma loop_bad_network:
  "validate_rows current new rows st = Inr st' \<Longrightarrow>
   bad_network st' = bad_network st @ filter (\<lambda>r. current (row_network r) = None) rows"
proof (induction rows arbitrary: st)
  case Nil
  then show ?case by simp
next
  case (Cons e es)
  obtain st1 where s: "validate_row current new st e = Inr st1"
    using validate_row_total by blast
  with Cons.prems have "validate_rows current new es st1 = Inr st'" by simp
  from Cons.IH [OF this] step_bad_network [OF s] show ?case by simp
qed

lemma loop_bad_profiles:
  "validate_rows current new rows st = Inr st' \<Longrightarrow>
   bad_profiles st' = bad_profiles st @
     concat (map (\<lambda>r. if current (row_network r) = None then []
                      else replicate (length (missing_profiles new r)) r) rows)"
proof (induction rows arbitrary: st)
  case Nil
  then show ?case by simp
next
  case (Cons e es)
  obtain st1 where s: "validate_row current new st e = Inr st1"
    using validate_row_total by blast
  with Cons.prems have "validate_rows current new es st1 = Inr st'" by simp
  from Cons.IH [OF this] step_bad_profiles [OF s] show ?case by simp
qed

lemma loop_bad_aps:
  "validate_rows current new rows st = Inr st' \<Longrightarrow>
   bad_aps st' = bad_aps st @
     filter (\<lambda>r. current (row_network r) \<noteq> None \<and> missing_profiles new r = [] \<and>
         1 < length (row_profiles r) \<and> py_lower (hd (row_aps r)) \<noteq> ''none'') rows"
proof (induction rows arbitrary: st)
  case Nil
  then show ?case by simp
next
  case (Cons e es)
  obtain st1 where s: "validate_row current new st e = Inr st1"
    using validate_row_total by blast
  with Cons.prems have "validate_rows current new es st1 = Inr st'" by simp
  from Cons.IH [OF this] step_bad_aps [OF s] show ?case by simp
qed

lemma loop_good:
  "validate_rows current new rows st = Inr st' \<Longrightarrow>
   good st' = good st + length (filter (row_accepted current new) rows)"
proof (induction rows arbitrary: st)
  case Nil
  then show ?case by simp
next
  case (Cons e es)
  obtain st1 where s: "validate_row current new st e = Inr st1"
    using validate_row_total by blast
  with Cons.prems have "validate_rows current new es st1 = Inr st'" by simp
  from Cons.IH [OF this] step_good [OF s] show ?case by simp
qed

lemma map_of_dict_set: "map_of (dict_set k v kvs) = (map_of kvs)(k \<mapsto> v)"
  by (induction kvs) (auto simp: fun_eq_iff)

lemma loop_updates_absent:
  "validate_rows current new rows st = Inr st' \<Longrightarrow> current n = None \<Longrightarrow>
   map_of (updates st') n = map_of (updates st) n"
proof (induction rows arbitrary: st)
  case Nil
  then show ?case by simp
next
  case (Cons e es)
  obtain st1 where s: "validate_row current new st e = Inr st1"
    using validate_row_total by blast
  with Cons.prems have r: "validate_rows current new es st1 = Inr st'" by simp
  have "map_of (updates st1) n = map_of (updates st) n"
    using step_updates [OF s] Cons.prems(2)
    by (auto simp: map_of_dict_set row_accepted_iff)
  with Cons.IH [OF r Cons.prems(2)] show ?case by simp
qed

lemma count_list_filter: "P e \<Longrightarrow> count_list (filter P rows) e = count_list rows e"
  by (induction rows) auto

lemma count_list_filter_not: "\<not> P e \<Longrightarrow> count_list (filter P rows) e = 0"
  by (induction rows) auto

lemma count_list_replicate: "count_list (replicate n x) y = (if x = y then n else 0)"
  by (induction n) auto

lemma count_list_concat_replicate:
  "count_list (concat (map (\<lambda>r. if c r then [] else replicate (k r) r) rows)) e =
     (if c e then 0 else k e * count_list rows e)"
  by (induction rows) (auto simp: count_list_replicate)

lemma map_of_classify:
  "map_of (classify cur a ps rf) p =
     (if p \<in> set ps then Some (classify_profile cur a p) else map_of rf p)"
  by (induction ps arbitrary: rf) (auto simp: map_of_dict_set)

lemma loop_updates_other:
  "validate_rows current new rows st = Inr st' \<Longrightarrow>
   filter (\<lambda>r. row_accepted current new r \<and> row_network r = n) rows = [] \<Longrightarrow>
   map_of (updates st') n = map_of (updates st) n"
proof (induction rows arbitrary: st)
  case Nil
  then show ?case by simp
next
  case (Cons e es)
  obtain st1 where s: "validate_row current new st e = Inr st1"
    using validate_row_total by blast
  with Cons.prems have r: "validate_rows current new es st1 = Inr st'" by simp
  have f: "filter (\<lambda>r. row_accepted current new r \<and> row_network r = n) es = []"
    using Cons.prems(2) by (simp split: if_splits)
  have "\<not> (row_accepted current new e \<and> row_network e = n)"
    using Cons.prems(2) by (auto split: if_splits)
  then have "map_of (updates st1) n = map_of (updates st) n"
    using step_updates [OF s] by (auto simp: map_of_dict_set)
  with Cons.IH [OF r f] show ?case by simp
qed

lemma accepted_entry:
  assumes "row_accepted current new e" and "validate_row current new st e = Inr st1"
  shows "\<exists>cur. current (row_network e) = Some cur \<and>
           map_of (updates st1) (row_network e) =
             Some \<lparr>nc_id = bl_id cur,
                   nc_rf = classify (bl_rf cur) (row_aps e) (row_profiles e) []\<rparr>"
proof -
  obtain cur where c: "current (row_network e) = Some cur"
    using assms(1) by (auto simp: row_accepted_iff)
  show ?thesis using step_updates [OF assms(2)] assms(1) c
    by (simp add: map_of_dict_set)
qed

subsection \<open>Auxiliary facts about the applier\<close>

lemma mutate_profile_call:
  "mutate_profile d netid doc ch s = Inr (r, s', c) \<Longrightarrow> \<not> is_radio_call c"
  by (auto simp: mutate_profile_def split: oper.splits option.splits prod.splits sum.splits)

lemma assign_aps_all_ok:
  assumes "\<forall>ap s. \<exists>s'. updateDeviceWirelessRadioSettings d ap rid s = (Inr (), s')"
  shows "\<exists>st'. assign_aps d netname pname rid xs st = Inr st' \<and>
           errors st' = errors st \<and>
           changes st' = changes st \<and>
           calls st' =
             calls st @ map (\<lambda>ap. (netname, pname, UpdateDeviceWirelessRadioSettings ap rid)) xs"
proof (induction xs arbitrary: st)
  case Nil
  show ?case by simp
next
  case (Cons ap xs)
  obtain s' where "updateDeviceWirelessRadioSettings d ap rid (remote st) = (Inr (), s')"
    using assms by blast
  then show ?case
    using Cons.IH [of "st\<lparr>remote := s',
             calls := calls st @ [(netname, pname, UpdateDeviceWirelessRadioSettings ap rid)]\<rparr>"]
    by auto
qed

text \<open>The sentinel \<^verbatim>\<open>none\<close>, in any letter case, skips the AP assignment.\<close>

lemma assign_profile_none:
  "py_lower a = ''none'' \<Longrightarrow>
   assign_profile d netname netid pname (a # tail) rid st = Inr st"
  by (simp add: assign_profile_def)


















subsection \<open>Unfolding the example inputs\<close>

lemmas ex_defs = ex_current_def ex_new_def ex_row_legacy_def ex_row_boost_def
  ex_row_two_profiles_def ex_row_no_aps_def ex_row_other_network_def
  ex_row_unknown_profiles_def ex_row_both_def

lemmas row_defs = row_network_def row_profiles_def row_aps_def py_lower_def py_lower_char_def
  py_strip_def py_isspace_def

lemmas validate_defs = validate_row_def init_vstate_def Let_def ap_conflict_def accept_row_def
  classify_profile_def

lemmas upload_defs = upload_profiles_def process_profile_def mutate_profile_def
  assign_profile_def store_id_def ex_dashboard_def ex_dashboard_refusing_def
  ex_dashboard_unreadable_def ex_other_network_def

subsection \<open>Rows naming an unknown network\<close>

text \<open>
  Claim C7. A row whose lower-cased network name is not a key of the baseline is reported
  as a network name mismatch exactly once for each time it occurs in the sheet: the
  report \<^verbatim>\<open>bad_network\<close> holds it as often as the sheet does. No other check sees
  the row: it is in neither of the other two reports, and the change-set has no entry
  under its network name.
\<close>

theorem network_mismatch_reported:
  assumes "current (row_network e) = None"
  shows "\<exists>st. validate_rows current new rows init_vstate = Inr st \<and>
           count_list (bad_network st) e = count_list rows e \<and>
           count_list (bad_profiles st) e = 0 \<and>
           count_list (bad_aps st) e = 0 \<and>
           map_of (updates st) (row_network e) = None"
proof -
  obtain st where st: "validate_rows current new rows init_vstate = Inr st"
    using validate_rows_total by blast
  have "count_list (bad_network st) e = count_list rows e"
    using loop_bad_network [OF st] assms
    by (simp add: init_vstate_def count_list_filter)
  moreover have "count_list (bad_profiles st) e = 0"
    using loop_bad_profiles [OF st] assms
    by (simp add: init_vstate_def count_list_concat_replicate)
  moreover have "count_list (bad_aps st) e = 0"
    using loop_bad_aps [OF st] assms
    by (simp add: init_vstate_def count_list_filter_not)
  moreover have "map_of (updates st) (row_network e) = None"
    using loop_updates_absent [OF st assms] by (simp add: init_vstate_def)
  ultimately show ?thesis using st by blast
qed

theorem network_mismatch_reported_witness:
  "ex_current (row_network ex_row_other_network) = None \<and>
   (\<exists>st. validate_rows ex_current ex_new [ex_row_legacy, ex_row_other_network] init_vstate = Inr st \<and>
         count_list (bad_network st) ex_row_other_network = 1 \<and>
         count_list (bad_profiles st) ex_row_other_network = 0 \<and>
         count_list (bad_aps st) ex_row_other_network = 0 \<and>
         map_of (updates st) ''branch-b'' = None)"
proof -
  have h: "ex_current (row_network ex_row_other_network) = None"
    by (simp add: ex_defs row_defs)
  have n: "row_network ex_row_other_network = ''branch-b''"
    by (simp add: ex_defs row_defs)
  have c: "count_list [ex_row_legacy, ex_row_other_network] ex_row_other_network = 1"
    by (simp add: ex_defs)
  from network_mismatch_reported
         [where current = ex_current and e = ex_row_other_network and new = ex_new
            and rows = "[ex_row_legacy, ex_row_other_network]", OF h]
  show ?thesis using h unfolding n c by simp
qed

subsection \<open>Rows naming an unknown profile\<close>

text \<open>
  Claim C10. Let the network of a row be known and let k of the profile names of the row,
  counted with repetitions, be missing from the templates, with k at least one. The loop
  body appends the row k times to \<^verbatim>\<open>bad_profiles\<close> and changes nothing else: the
  change-set and the counter stay as they were. Over a whole sheet the report holds the
  row k times for each of its occurrences, and the other two reports do not hold it.
\<close>

theorem profile_mismatch_reported_per_missing_name:
  assumes "current (row_network e) = Some cur"
    and "missing_profiles new e \<noteq> []"
  shows "validate_row current new st e =
           Inr (st\<lparr>bad_profiles :=
                     bad_profiles st @ replicate (length (missing_profiles new e)) e\<rparr>) \<and>
         (\<exists>st'. validate_rows current new rows init_vstate = Inr st' \<and>
            count_list (bad_profiles st') e = length (missing_profiles new e) * count_list rows e \<and>
            count_list (bad_network st') e = 0 \<and>
            count_list (bad_aps st') e = 0)"
proof -
  have step: "validate_row current new st e =
           Inr (st\<lparr>bad_profiles :=
                     bad_profiles st @ replicate (length (missing_profiles new e)) e\<rparr>)"
    using assms by (simp add: validate_row_eq)
  obtain st' where st: "validate_rows current new rows init_vstate = Inr st'"
    using validate_rows_total by blast
  have "count_list (bad_profiles st') e = length (missing_profiles new e) * count_list rows e"
    using loop_bad_profiles [OF st] assms(1)
    by (simp add: init_vstate_def count_list_concat_replicate)
  moreover have "count_list (bad_network st') e = 0"
    using loop_bad_network [OF st] assms(1)
    by (simp add: init_vstate_def count_list_filter_not)
  moreover have "count_list (bad_aps st') e = 0"
    using loop_bad_aps [OF st] assms(2)
    by (simp add: init_vstate_def count_list_filter_not)
  ultimately show ?thesis using step st by blast
qed

theorem profile_mismatch_reported_per_missing_name_witness:
  "ex_current (row_network ex_row_unknown_profiles) =
     Some \<lparr>bl_id = ''N1'', bl_rf = [''legacy'' \<mapsto> ''R1'']\<rparr> \<and>
   missing_profiles ex_new ex_row_unknown_profiles = [''2ghz'', ''6ghz''] \<and>
   validate_row ex_current ex_new init_vstate ex_row_unknown_profiles =
     Inr (init_vstate\<lparr>bad_profiles := [ex_row_unknown_profiles, ex_row_unknown_profiles]\<rparr>) \<and>
   (\<exists>st'. validate_rows ex_current ex_new [ex_row_legacy, ex_row_unknown_profiles] init_vstate =
            Inr st' \<and>
          count_list (bad_profiles st') ex_row_unknown_profiles = 2 \<and>
          count_list (bad_network st') ex_row_unknown_profiles = 0 \<and>
          count_list (bad_aps st') ex_row_unknown_profiles = 0)"
proof -
  have h1: "ex_current (row_network ex_row_unknown_profiles) =
     Some \<lparr>bl_id = ''N1'', bl_rf = [''legacy'' \<mapsto> ''R1'']\<rparr>"
    by (simp add: ex_defs row_defs)
  have m: "missing_profiles ex_new ex_row_unknown_profiles = [''2ghz'', ''6ghz'']"
    by (simp add: missing_profiles_def ex_defs row_defs)
  then have h2: "missing_profiles ex_new ex_row_unknown_profiles \<noteq> []" by simp
  have c: "count_list [ex_row_legacy, ex_row_unknown_profiles] ex_row_unknown_profiles = 1"
    by (simp add: ex_defs)
  from profile_mismatch_reported_per_missing_name
         [where current = ex_current and new = ex_new and e = ex_row_unknown_profiles
            and st = init_vstate and rows = "[ex_row_legacy, ex_row_unknown_profiles]", OF h1 h2]
  show ?thesis using h1 unfolding m c by (simp add: init_vstate_def numeral_2_eq_2)
qed

subsection \<open>Several profiles and an AP list\<close>

text \<open>
  Claim C2. The claim asks that a row with several profiles and an empty APs column be
  accepted. The source attempts the test for emptiness with \<^verbatim>\<open>aps != ""\<close>, but
  \<^verbatim>\<open>aps\<close> is the list produced by \<^verbatim>\<open>split\<close>, never equal to a string, and for an
  empty column it is the list holding one empty string. The row is therefore rejected as
  a conflict between several profiles and an AP list; being the only row of the sheet,
  the run exits. The theorem evaluates the validator on such a row.
\<close>

theorem multi_profile_empty_aps_rejected:
  "row_profiles ex_row_two_profiles = [''legacy'', ''5ghz-boost''] \<and>
   row_aps ex_row_two_profiles = [''''] \<and>
   validate_rows ex_current ex_new [ex_row_two_profiles] init_vstate =
     Inr (init_vstate\<lparr>bad_aps := [ex_row_two_profiles]\<rparr>) \<and>
   validateAssignments ex_current ex_new [ex_row_two_profiles] = Inl (SystemExit 1)"
  by (simp add: validateAssignments_def validate_defs ex_defs row_defs)

subsection \<open>New profiles and updates\<close>

text \<open>
  What lines 184-193 do for an accepted row. When the row has been processed, the
  change-set has an entry for the network of the row, with the id the baseline gives the
  network, in which every profile name of the row is tagged \<^verbatim>\<open>update\<close> with the id
  of the baseline when the network already has a profile of that name, and
  \<^verbatim>\<open>add\<close> without id otherwise, each with the AP list of the row. This is the state
  after any rows \<open>pre\<close> followed by the row. The change-set returned for a sheet still
  has that entry when no accepted row for the same network follows.
\<close>

theorem classified_add_or_update:
  assumes "row_accepted current new e"
  shows "\<exists>st cur nc.
           validate_rows current new (pre @ [e]) init_vstate = Inr st \<and>
           current (row_network e) = Some cur \<and>
           map_of (updates st) (row_network e) = Some nc \<and>
           nc_id nc = bl_id cur \<and>
           (\<forall>p\<in>set (row_profiles e).
              map_of (nc_rf nc) p =
                Some (case bl_rf cur p of
                        Some i \<Rightarrow> \<lparr>aps = row_aps e, oper = Update, rfid = Some i\<rparr>
                      | None \<Rightarrow> \<lparr>aps = row_aps e, oper = Add, rfid = None\<rparr>)) \<and>
           (filter (\<lambda>r. row_accepted current new r \<and> row_network r = row_network e) post = [] \<longrightarrow>
              (\<exists>st'. validate_rows current new (pre @ e # post) init_vstate = Inr st' \<and>
                     validateAssignments current new (pre @ e # post) = Inr (updates st') \<and>
                     map_of (updates st') (row_network e) = Some nc))"
proof -
  obtain st0 where st0: "validate_rows current new pre init_vstate = Inr st0"
    using validate_rows_total by blast
  obtain st1 where st1: "validate_row current new st0 e = Inr st1"
    using validate_row_total by blast
  have run1: "validate_rows current new (pre @ [e]) init_vstate = Inr st1"
    using validate_rows_append [OF st0, of "[e]"] st1 by simp
  obtain cur where cur: "current (row_network e) = Some cur"
    and ent: "map_of (updates st1) (row_network e) =
                Some \<lparr>nc_id = bl_id cur,
                      nc_rf = classify (bl_rf cur) (row_aps e) (row_profiles e) []\<rparr>"
    using accepted_entry [OF assms st1] by blast
  define nc where "nc = \<lparr>nc_id = bl_id cur,
                      nc_rf = classify (bl_rf cur) (row_aps e) (row_profiles e) []\<rparr>"
  have cls: "\<forall>p\<in>set (row_profiles e).
              map_of (nc_rf nc) p =
                Some (case bl_rf cur p of
                        Some i \<Rightarrow> \<lparr>aps = row_aps e, oper = Update, rfid = Some i\<rparr>
                      | None \<Rightarrow> \<lparr>aps = row_aps e, oper = Add, rfid = None\<rparr>)"
    by (simp add: nc_def map_of_classify classify_profile_def)
  have later: "\<exists>st'. validate_rows current new (pre @ e # post) init_vstate = Inr st' \<and>
                     validateAssignments current new (pre @ e # post) = Inr (updates st') \<and>
                     map_of (updates st') (row_network e) = Some nc"
    if f: "filter (\<lambda>r. row_accepted current new r \<and> row_network r = row_network e) post = []"
  proof -
    obtain st2 where st2: "validate_rows current new post st1 = Inr st2"
      using validate_rows_total by blast
    have run2: "validate_rows current new (pre @ e # post) init_vstate = Inr st2"
      using validate_rows_append [OF run1, of post] st2 by simp
    have keep: "map_of (updates st2) (row_network e) = Some nc"
      using loop_updates_other [OF st2 f] ent by (simp add: nc_def)
    have "good st2 = length (filter (row_accepted current new) (pre @ e # post))"
      using loop_good [OF run2] by (simp add: init_vstate_def)
    then have "good st2 \<noteq> 0" using assms by simp
    then have "validateAssignments current new (pre @ e # post) = Inr (updates st2)"
      using run2 by (simp add: validateAssignments_def)
    with run2 keep show ?thesis by blast
  qed
  show ?thesis
    using run1 cur ent cls later by (auto simp: nc_def)
qed

theorem classified_add_or_update_witness:
  "row_accepted ex_current ex_new ex_row_both \<and>
   (\<exists>st nc.
      validate_rows ex_current ex_new [ex_row_boost, ex_row_both] init_vstate = Inr st \<and>
      map_of (updates st) ''branch-a'' = Some nc \<and>
      nc_id nc = ''N1'' \<and>
      map_of (nc_rf nc) ''legacy'' = Some \<lparr>aps = [''None''], oper = Update, rfid = Some ''R1''\<rparr> \<and>
      map_of (nc_rf nc) ''5ghz-boost'' = Some \<lparr>aps = [''None''], oper = Add, rfid = None\<rparr> \<and>
      validateAssignments ex_current ex_new [ex_row_boost, ex_row_both, ex_row_other_network] =
        Inr (updates st))"
proof -
  have h: "row_accepted ex_current ex_new ex_row_both"
    by (simp add: row_accepted_def validate_defs ex_defs row_defs)
  have n: "row_network ex_row_both = ''branch-a''"
    by (simp add: ex_row_both_def row_defs)
  have p: "row_profiles ex_row_both = [''legacy'', ''5ghz-boost'']"
    by (simp add: ex_row_both_def row_defs)
  have a: "row_aps ex_row_both = [''None'']"
    by (simp add: ex_row_both_def row_defs)
  have f: "filter (\<lambda>r. row_accepted ex_current ex_new r \<and> row_network r = ''branch-a'')
             [ex_row_other_network] = []"
    by (simp add: ex_defs row_defs)
  have c: "ex_current ''branch-a'' = Some \<lparr>bl_id = ''N1'', bl_rf = [''legacy'' \<mapsto> ''R1'']\<rparr>"
    by (simp add: ex_defs)
  from classified_add_or_update
         [where current = ex_current and new = ex_new and e = ex_row_both
            and pre = "[ex_row_boost]" and post = "[ex_row_other_network]", OF h]
  obtain st cur nc where
    r: "validate_rows ex_current ex_new ([ex_row_boost] @ [ex_row_both]) init_vstate = Inr st"
    and cu: "ex_current ''branch-a'' = Some cur"
    and m: "map_of (updates st) ''branch-a'' = Some nc"
    and i: "nc_id nc = bl_id cur"
    and b: "\<forall>p\<in>set [''legacy'', ''5ghz-boost''].
              map_of (nc_rf nc) p =
                Some (case bl_rf cur p of
                        Some i \<Rightarrow> \<lparr>aps = [''None''], oper = Update, rfid = Some i\<rparr>
                      | None \<Rightarrow> \<lparr>aps = [''None''], oper = Add, rfid = None\<rparr>)"
    and l: "\<exists>st'. validate_rows ex_current ex_new ([ex_row_boost] @ ex_row_both # [ex_row_other_network])
                    init_vstate = Inr st' \<and>
                  validateAssignments ex_current ex_new
                    ([ex_row_boost] @ ex_row_both # [ex_row_other_network]) = Inr (updates st') \<and>
                  map_of (updates st') ''branch-a'' = Some nc"
    unfolding n p a using f by auto
  have cur: "cur = \<lparr>bl_id = ''N1'', bl_rf = [''legacy'' \<mapsto> ''R1'']\<rparr>"
    using cu c by simp
  obtain st' where
    r': "validate_rows ex_current ex_new [ex_row_boost, ex_row_both, ex_row_other_network]
           init_vstate = Inr st'"
    and v: "validateAssignments ex_current ex_new
              [ex_row_boost, ex_row_both, ex_row_other_network] = Inr (updates st')"
    using l by auto
  have "validate_row ex_current ex_new st ex_row_other_network = Inr st'"
    using validate_rows_append [OF r, of "[ex_row_other_network]"] r'
    by (simp split: sum.splits)
  then have "updates st' = updates st"
    by (auto simp: validate_row_eq ex_defs row_defs)
  with r m i b v show ?thesis using h cur by auto
qed

text \<open>
  Claim C5. The claim asks that every profile of every accepted row be tagged in the
  change-set, \<^verbatim>\<open>update\<close> with the id of the baseline when the network has the
  profile. On the end-to-end scenario of the specification the row for \<^verbatim>\<open>legacy\<close> is
  accepted and the baseline of its network holds \<^verbatim>\<open>legacy\<close> with id \<^verbatim>\<open>R1\<close>, but
  the change-set returned has no tag for \<^verbatim>\<open>legacy\<close> at all: line 179 has replaced
  the entry of the network when the second row was accepted.
\<close>

theorem accepted_baseline_profile_dropped:
  "row_accepted ex_current ex_new ex_row_legacy \<and>
   row_network ex_row_legacy = ''branch-a'' \<and>
   row_profiles ex_row_legacy = [''legacy''] \<and>
   map_option (\<lambda>cur. bl_rf cur ''legacy'') (ex_current ''branch-a'') = Some (Some ''R1'') \<and>
   validateAssignments ex_current ex_new [ex_row_legacy, ex_row_boost] =
     Inr [(''branch-a'',
           \<lparr>nc_id = ''N1'',
            nc_rf = [(''5ghz-boost'',
                      \<lparr>aps = [''AP100'', ''AP101''], oper = Add, rfid = None\<rparr>)]\<rparr>)] \<and>
   map_of [(''5ghz-boost'', \<lparr>aps = [''AP100'', ''AP101''], oper = Add, rfid = None\<rparr>)]
     ''legacy'' = None"
  by (simp add: row_accepted_def validateAssignments_def validate_defs ex_defs row_defs)

subsection \<open>Two rows for one network\<close>

text \<open>
  Claim C1. The claim asks that two accepted rows for one network be merged into one
  entry holding the profiles of both. Line 179 stores a new dictionary under the target
  network for every accepted row, whether or not the network already has an entry, so
  the later row replaces what the earlier one contributed. On the end-to-end scenario of
  the specification both rows are accepted, the first alone yields the entry for
  \<^verbatim>\<open>legacy\<close>, and the two together yield an entry holding \<^verbatim>\<open>5ghz-boost\<close> only.
\<close>

theorem later_row_replaces_network_entry:
  "row_accepted ex_current ex_new ex_row_legacy \<and>
   row_accepted ex_current ex_new ex_row_boost \<and>
   validateAssignments ex_current ex_new [ex_row_legacy] =
     Inr [(''branch-a'',
           \<lparr>nc_id = ''N1'',
            nc_rf = [(''legacy'', \<lparr>aps = [''none''], oper = Update, rfid = Some ''R1''\<rparr>)]\<rparr>)] \<and>
   validateAssignments ex_current ex_new [ex_row_legacy, ex_row_boost] =
     Inr [(''branch-a'',
           \<lparr>nc_id = ''N1'',
            nc_rf = [(''5ghz-boost'',
                      \<lparr>aps = [''AP100'', ''AP101''], oper = Add, rfid = None\<rparr>)]\<rparr>)]"
  by (simp add: row_accepted_def validateAssignments_def validate_defs ex_defs row_defs)

subsection \<open>No accepted row\<close>




section \<open>Properties of the applier\<close>

subsection \<open>A failed creation or update\<close>




subsection \<open>An empty AP list\<close>

text \<open>
  Claim C3. The claim asks that no per-device call be made for an entry whose AP list is
  empty. The source attempts the test with \<^verbatim>\<open>aps == ""\<close>, which is false for every
  list; an empty APs column reaches the applier as the list holding one empty string,
  and the loop of line 289 makes one radio-settings call with the empty serial. The
  theorem evaluates the validator and the applier on a row with an empty APs column.
\<close>

theorem empty_aps_triggers_device_call:
  "validateAssignments ex_current ex_new [ex_row_no_aps] =
     Inr [(''branch-a'',
           \<lparr>nc_id = ''N1'',
            nc_rf = [(''legacy'', \<lparr>aps = [''''], oper = Update, rfid = Some ''R1''\<rparr>)]\<rparr>)] \<and>
   upload_profiles
     [(''branch-a'',
       \<lparr>nc_id = ''N1'',
        nc_rf = [(''legacy'', \<lparr>aps = [''''], oper = Update, rfid = Some ''R1''\<rparr>)]\<rparr>)]
     ex_new (ex_dashboard []) 0 =
     Inr \<lparr>remote = 2, errors = [],
          changes = [(''branch-a'',
                      \<lparr>nc_id = ''N1'',
                       nc_rf = [(''legacy'',
                                 \<lparr>aps = [''''], oper = Update, rfid = Some ''R1''\<rparr>)]\<rparr>)],
          calls = [(''branch-a'', ''legacy'',
                    UpdateNetworkWirelessRfProfile ''N1'' ''R1'' ''legacy.yaml''),
                   (''branch-a'', ''legacy'',
                    UpdateDeviceWirelessRadioSettings '''' ''R1'')]\<rparr>"
  by (simp add: validateAssignments_def validate_defs ex_defs row_defs upload_defs)

subsection \<open>The sentinel all on a network without access points\<close>

text \<open>
  Claim C8. Let the creation or update of a profile succeed, let the first AP target of
  its entry be \<^verbatim>\<open>all\<close> in any letter case, and let the listing of the devices of the
  network succeed with no device that the filter of line 279 keeps. Then the iteration
  for the profile returns, it appends nothing to \<^verbatim>\<open>errors\<close>, and the calls it makes
  are the creation or update and the listing: no per-device call.
\<close>

theorem all_without_wireless_devices_is_noop:
  assumes "profiles pname = Some doc"
    and "mutate_profile d netid doc ch (remote st) = Inr (Inr rid, s1, c)"
    and "aps ch = a # tail" and "py_lower a = ''all''"
    and "getNetworkDevices d netid s1 = (Inr response, s2)"
    and "filter (\<lambda>dev. py_in ''MR'' (model dev)) response = []"
  shows "\<exists>st'. process_profile d profiles netname netid pname ch st = Inr st' \<and>
           errors st' = errors st \<and>
           radio_calls (calls st') = radio_calls (calls st) \<and>
           calls st' = calls st @ [(netname, pname, c), (netname, pname, GetNetworkDevices netid)] \<and>
           remote st' = s2"
proof -
  have r: "\<not> is_radio_call c" using mutate_profile_call [OF assms(2)] .
  show ?thesis using assms r
    by (simp add: process_profile_def assign_profile_def radio_calls_def)
qed

theorem all_without_wireless_devices_is_noop_witness:
  "ex_new ''legacy'' = Some ''legacy.yaml'' \<and>
   mutate_profile (ex_dashboard [\<lparr>serial = ''Q2-C'', model = ''MX64''\<rparr>]) ''N1'' ''legacy.yaml''
       ex_rf_all (remote ex_ustate) =
     Inr (Inr ''R1'', 1, UpdateNetworkWirelessRfProfile ''N1'' ''R1'' ''legacy.yaml'') \<and>
   aps ex_rf_all = [''ALL''] \<and> py_lower ''ALL'' = ''all'' \<and>
   getNetworkDevices (ex_dashboard [\<lparr>serial = ''Q2-C'', model = ''MX64''\<rparr>]) ''N1'' 1 =
     (Inr [\<lparr>serial = ''Q2-C'', model = ''MX64''\<rparr>], 2) \<and>
   filter (\<lambda>dev. py_in ''MR'' (model dev)) [\<lparr>serial = ''Q2-C'', model = ''MX64''\<rparr>] = [] \<and>
   process_profile (ex_dashboard [\<lparr>serial = ''Q2-C'', model = ''MX64''\<rparr>]) ex_new
       ''branch-a'' ''N1'' ''legacy'' ex_rf_all ex_ustate =
     Inr \<lparr>remote = 2, errors = [], changes = [],
          calls = [(''branch-a'', ''legacy'',
                    UpdateNetworkWirelessRfProfile ''N1'' ''R1'' ''legacy.yaml''),
                   (''branch-a'', ''legacy'', GetNetworkDevices ''N1'')]\<rparr>"
proof -
  let ?d = "ex_dashboard [\<lparr>serial = ''Q2-C'', model = ''MX64''\<rparr>]"
  have h1: "ex_new ''legacy'' = Some ''legacy.yaml''"
    by (simp add: ex_new_def)
  have h2: "mutate_profile ?d ''N1'' ''legacy.yaml'' ex_rf_all (remote ex_ustate) =
     Inr (Inr ''R1'', 1, UpdateNetworkWirelessRfProfile ''N1'' ''R1'' ''legacy.yaml'')"
    by (simp add: mutate_profile_def ex_dashboard_def ex_rf_all_def ex_ustate_def)
  have h3: "aps ex_rf_all = ''ALL'' # []" by (simp add: ex_rf_all_def)
  have h4: "py_lower ''ALL'' = ''all''" by (simp add: row_defs)
  have h5: "getNetworkDevices ?d ''N1'' 1 = (Inr [\<lparr>serial = ''Q2-C'', model = ''MX64''\<rparr>], 2)"
    by (simp add: ex_dashboard_def)
  have h6: "filter (\<lambda>dev. py_in ''MR'' (model dev)) [\<lparr>serial = ''Q2-C'', model = ''MX64''\<rparr>] = []"
    by simp
  from all_without_wireless_devices_is_noop
         [where profiles = ex_new and pname = "''legacy''" and st = ex_ustate
            and netname = "''branch-a''", OF h1 h2 h3 h4 h5 h6]
  obtain st' where
    p: "process_profile ?d ex_new ''branch-a'' ''N1'' ''legacy'' ex_rf_all ex_ustate = Inr st'"
    and e: "errors st' = errors ex_ustate"
    and c: "calls st' = calls ex_ustate @
              [(''branch-a'', ''legacy'',
                UpdateNetworkWirelessRfProfile ''N1'' ''R1'' ''legacy.yaml''),
               (''branch-a'', ''legacy'', GetNetworkDevices ''N1'')]"
    and r: "remote st' = 2"
    by blast
  have "changes st' = []"
    using p by (auto simp: upload_defs ex_new_def ex_rf_all_def ex_ustate_def row_defs)
  with e c r have "st' = \<lparr>remote = 2, errors = [], changes = [],
          calls = [(''branch-a'', ''legacy'',
                    UpdateNetworkWirelessRfProfile ''N1'' ''R1'' ''legacy.yaml''),
                   (''branch-a'', ''legacy'', GetNetworkDevices ''N1'')]\<rparr>"
    by (cases st') (simp add: ex_ustate_def)
  with p h1 h2 h3 h4 h5 h6 show ?thesis by simp
qed

subsection \<open>Which devices the sentinel all selects\<close>

text \<open>
  Claim C9 says that a device is assigned exactly when its model starts with the prefix
  of the access points. Line 279 tests \<^verbatim>\<open>"MR" in d["model"]\<close>, a containment test.
  A device of model \<^verbatim>\<open>CMR1\<close>, which does not start with \<^verbatim>\<open>MR\<close>, is assigned.
\<close>

theorem model_with_inner_MR_is_assigned:
  "\<not> py_startswith ''CMR1'' ''MR'' \<and>
   upload_profiles
     [(''branch-a'',
       \<lparr>nc_id = ''N1'',
        nc_rf = [(''legacy'', \<lparr>aps = [''all''], oper = Update, rfid = Some ''R1''\<rparr>)]\<rparr>)]
     ex_new (ex_dashboard [\<lparr>serial = ''Q2-B'', model = ''CMR1''\<rparr>]) 0 =
     Inr \<lparr>remote = 3, errors = [],
          changes = [(''branch-a'',
                      \<lparr>nc_id = ''N1'',
                       nc_rf = [(''legacy'',
                                 \<lparr>aps = [''all''], oper = Update, rfid = Some ''R1''\<rparr>)]\<rparr>)],
          calls = [(''branch-a'', ''legacy'',
                    UpdateNetworkWirelessRfProfile ''N1'' ''R1'' ''legacy.yaml''),
                   (''branch-a'', ''legacy'', GetNetworkDevices ''N1''),
                   (''branch-a'', ''legacy'',
                    UpdateDeviceWirelessRadioSettings ''Q2-B'' ''R1'')]\<rparr>"
  by (simp add: ex_defs row_defs upload_defs)

text \<open>
  Claim C9, amended. When the first AP target is \<^verbatim>\<open>all\<close> in any letter case and the
  listing of the devices succeeds, the serials handed to the per-device loop are those
  of the devices whose model contains \<^verbatim>\<open>MR\<close> anywhere, in the order of the listing.
  When moreover every per-device call succeeds, the calls made are the listing followed
  by one radio-settings call for each of exactly these devices, and nothing is appended
  to \<^verbatim>\<open>errors\<close>.
\<close>

theorem all_selects_models_containing_MR:
  assumes "py_lower a = ''all''"
    and "getNetworkDevices d netid (remote st) = (Inr response, s1)"
  shows "assign_profile d netname netid pname (a # tail) rid st =
           assign_aps d netname pname rid
             (map serial (filter (\<lambda>dev. py_in ''MR'' (model dev)) response))
             (st\<lparr>remote := s1,
                 calls := calls st @ [(netname, pname, GetNetworkDevices netid)]\<rparr>) \<and>
         ((\<forall>ap s. \<exists>s'. updateDeviceWirelessRadioSettings d ap rid s = (Inr (), s')) \<longrightarrow>
            (\<exists>st'. assign_profile d netname netid pname (a # tail) rid st = Inr st' \<and>
                   errors st' = errors st \<and>
                   calls st' = calls st @ (netname, pname, GetNetworkDevices netid) #
                     map (\<lambda>dev. (netname, pname, UpdateDeviceWirelessRadioSettings (serial dev) rid))
                         (filter (\<lambda>dev. py_in ''MR'' (model dev)) response)))"
proof -
  let ?serials = "map serial (filter (\<lambda>dev. py_in ''MR'' (model dev)) response)"
  let ?st1 = "st\<lparr>remote := s1,
                 calls := calls st @ [(netname, pname, GetNetworkDevices netid)]\<rparr>"
  have e: "assign_profile d netname netid pname (a # tail) rid st =
           assign_aps d netname pname rid ?serials ?st1"
    using assms by (simp add: assign_profile_def)
  have "\<exists>st'. assign_profile d netname netid pname (a # tail) rid st = Inr st' \<and>
                   errors st' = errors st \<and>
                   calls st' = calls st @ (netname, pname, GetNetworkDevices netid) #
                     map (\<lambda>dev. (netname, pname, UpdateDeviceWirelessRadioSettings (serial dev) rid))
                         (filter (\<lambda>dev. py_in ''MR'' (model dev)) response)"
    if ok: "\<forall>ap s. \<exists>s'. updateDeviceWirelessRadioSettings d ap rid s = (Inr (), s')"
  proof -
    obtain st' where "assign_aps d netname pname rid ?serials ?st1 = Inr st'"
      and "errors st' = errors ?st1"
      and "calls st' = calls ?st1 @
             map (\<lambda>ap. (netname, pname, UpdateDeviceWirelessRadioSettings ap rid)) ?serials"
      using assign_aps_all_ok [OF ok, of netname pname ?serials ?st1] by blast
    then show ?thesis unfolding e by (simp add: comp_def)
  qed
  with e show ?thesis by blast
qed

theorem all_selects_models_containing_MR_witness:
  "py_lower ''all'' = ''all'' \<and>
   getNetworkDevices (ex_dashboard ex_devices) ''N1'' (remote ex_ustate) = (Inr ex_devices, 1) \<and>
   (\<forall>ap s. \<exists>s'. updateDeviceWirelessRadioSettings (ex_dashboard ex_devices) ap ''R1'' s =
                  (Inr (), s')) \<and>
   filter (\<lambda>dev. py_in ''MR'' (model dev)) ex_devices =
     [\<lparr>serial = ''Q2-A'', model = ''MR44''\<rparr>, \<lparr>serial = ''Q2-B'', model = ''CMR1''\<rparr>] \<and>
   (\<exists>st'. assign_profile (ex_dashboard ex_devices) ''branch-a'' ''N1'' ''legacy'' [''all''] ''R1''
            ex_ustate = Inr st' \<and>
          errors st' = [] \<and>
          calls st' =
            [(''branch-a'', ''legacy'', GetNetworkDevices ''N1''),
             (''branch-a'', ''legacy'', UpdateDeviceWirelessRadioSettings ''Q2-A'' ''R1''),
             (''branch-a'', ''legacy'', UpdateDeviceWirelessRadioSettings ''Q2-B'' ''R1'')])"
proof -
  have h1: "py_lower ''all'' = ''all''" by (simp add: row_defs)
  have h2: "getNetworkDevices (ex_dashboard ex_devices) ''N1'' (remote ex_ustate) =
              (Inr ex_devices, 1)"
    by (simp add: ex_dashboard_def ex_ustate_def)
  have h3: "\<forall>ap s. \<exists>s'. updateDeviceWirelessRadioSettings (ex_dashboard ex_devices) ap ''R1'' s =
                  (Inr (), s')"
    by (simp add: ex_dashboard_def)
  have f: "filter (\<lambda>dev. py_in ''MR'' (model dev)) ex_devices =
     [\<lparr>serial = ''Q2-A'', model = ''MR44''\<rparr>, \<lparr>serial = ''Q2-B'', model = ''CMR1''\<rparr>]"
    by (simp add: ex_devices_def)
  from all_selects_models_containing_MR
         [where netname = "''branch-a''" and pname = "''legacy''" and tail = "[]" and rid = "''R1''",
          OF h1 h2] h3
  have "\<exists>st'. assign_profile (ex_dashboard ex_devices) ''branch-a'' ''N1'' ''legacy'' [''all''] ''R1''
            ex_ustate = Inr st' \<and>
          errors st' = errors ex_ustate \<and>
          calls st' = calls ex_ustate @ (''branch-a'', ''legacy'', GetNetworkDevices ''N1'') #
             map (\<lambda>dev. (''branch-a'', ''legacy'',
                          UpdateDeviceWirelessRadioSettings (serial dev) ''R1''))
                 (filter (\<lambda>dev. py_in ''MR'' (model dev)) ex_devices)"
    by blast
  then show ?thesis using h1 h2 h3 unfolding f by (simp add: ex_ustate_def)
qed

end
